theory Spec2Isabelle
  imports Main
begin

unbundle bit_operations_syntax

section \<open>Values, errors and rows\<close>

text \<open>
  The services receive the decoded JSON body of a request as a dict. Its values are
  modelled by the scalars null, integer and string; Python's own \<open>int\<close> is unbounded,
  so HOL's \<open>int\<close> is the same type, with \<open>OR\<close> the same bitwise operation (two's
  complement on both sides).
\<close>

datatype pyval = PyNone | PyInt int | PyStr string

type_synonym data = "string \<rightharpoonup> pyval"

text \<open>Every \<open>raise\<close> of the modelled code is a value of this type.\<close>

datatype error = AttributeError string | ValueError string | TypeError

text \<open>
  The rows of \<open>models.py\<close>. A field that a service assigns straight from the request
  dict holds a \<open>pyval\<close>; a field that only ever receives the result of \<open>int(...)\<close> holds
  an \<open>int\<close>; a nullable integer column is an \<open>int option\<close>. A date is year, month, day.
\<close>

type_synonym date = "nat \<times> nat \<times> nat"

record user =
  user_id :: int
  username :: string
  password_hash :: string
  role :: pyval
  first_name :: pyval
  last_name :: pyval
  email :: pyval
  phone :: pyval

record equipment =
  equipment_id :: int
  name :: pyval
  description :: pyval
  type_id :: int
  status_id :: int
  location_id :: "int option"

record intervention =
  intervention_id :: int
  date :: date
  description :: pyval
  duration_minutes :: "int option"
  equipment_id :: int
  user_id :: "int option"
  outcome_id :: "int option"

text \<open>
  The database: one list of rows per table. \<open>Model.query.get(pk)\<close> is the row with that
  primary key; the database keeps primary keys unique, which the theorems that need it
  assume as \<open>distinct (map pk table)\<close>.
\<close>

record db =
  equipment_table :: "equipment list"
  intervention_table :: "intervention list"
  user_table :: "user list"

definition get_equipment :: "db \<Rightarrow> int \<Rightarrow> equipment option" where
  "get_equipment s eid = find (\<lambda>e. equipment.equipment_id e = eid) (equipment_table s)"

definition get_intervention :: "db \<Rightarrow> int \<Rightarrow> intervention option" where
  "get_intervention s iid = find (\<lambda>i. intervention_id i = iid) (intervention_table s)"

definition get_user :: "db \<Rightarrow> int \<Rightarrow> user option" where
  "get_user s uid = find (\<lambda>u. user.user_id u = uid) (user_table s)"

section \<open>The status-synchronization rule (services/intervention\_service.py)\<close>

definition OUTCOME_RESOLVED :: int where "OUTCOME_RESOLVED = 1"
definition OUTCOME_MONITORING :: int where "OUTCOME_MONITORING = 2"
definition OUTCOME_PENDING :: int where "OUTCOME_PENDING = 3"

definition STATUS_WORKING :: int where "STATUS_WORKING = 1"
definition STATUS_UNDER_REPAIR :: int where "STATUS_UNDER_REPAIR = 2"

text \<open>
  \<open>equipment.status_id = v\<close> on the row loaded for primary key \<open>eid\<close>: the pending
  change that the caller's commit writes to that row.
\<close>

definition set_status :: "db \<Rightarrow> int \<Rightarrow> int \<Rightarrow> db" where
  "set_status s eid v =
     s\<lparr>equipment_table :=
         map (\<lambda>e. if equipment.equipment_id e = eid then e\<lparr>status_id := v\<rparr> else e)
           (equipment_table s)\<rparr>"

text \<open>
  The right operand of the second branch is written
  \<open>Intervention.Service.OUTCOME_MONITORING\<close>. \<open>Intervention\<close> is the model class of
  \<open>models.py\<close>, which has no attribute \<open>Service\<close>, so evaluating the operand raises.
\<close>

definition Intervention_Service_OUTCOME_MONITORING :: "error + int" where
  "Intervention_Service_OUTCOME_MONITORING = Inl (AttributeError ''Service'')"

text \<open>
  The condition of the \<open>elif\<close>,
  \<open>outcome_id == OUTCOME_PENDING | outcome_id == Intervention.Service.OUTCOME_MONITORING\<close>.
  In Python \<open>|\<close> binds tighter than \<open>==\<close>, and \<open>a == b == c\<close> is the chained comparison
  \<open>a == b and b == c\<close> with \<open>b\<close> evaluated once and \<open>c\<close> only when \<open>a == b\<close> holds.
  Here \<open>a\<close> is \<open>outcome_id\<close> and \<open>b\<close> is \<open>OUTCOME_PENDING | outcome_id\<close>.
\<close>

definition rule2_condition :: "int \<Rightarrow> error + bool" where
  "rule2_condition outcome =
     (let b = OUTCOME_PENDING OR outcome in
      if outcome = b then
        (case Intervention_Service_OUTCOME_MONITORING of
           Inl err \<Rightarrow> Inl err
         | Inr c \<Rightarrow> Inr (b = c))
      else Inr False)"

text \<open>
  \<open>InterventionService._update_equipment_status\<close> (an Isabelle name cannot start with an
  underscore). \<open>Inl\<close> is the exception that leaves the function; \<open>Inr\<close> is the session
  state when it returns.
\<close>

definition update_equipment_status :: "db \<Rightarrow> int \<Rightarrow> int \<Rightarrow> error + db" where
  "update_equipment_status s eid outcome =
     (case get_equipment s eid of
        None \<Rightarrow> Inr s
      | Some e \<Rightarrow>
          if outcome = OUTCOME_RESOLVED then Inr (set_status s eid STATUS_WORKING)
          else (case rule2_condition outcome of
                  Inl err \<Rightarrow> Inl err
                | Inr True \<Rightarrow> Inr (set_status s eid STATUS_UNDER_REPAIR)
                | Inr False \<Rightarrow> Inr s))"

text \<open>
  One invocation of the rule as a caller sees it: the exception it raised, if any, and
  the session state it leaves. Every \<open>raise\<close> of the rule precedes its assignments, so
  a raising invocation leaves the state it found.
\<close>

definition invoke_rule :: "db \<Rightarrow> int \<Rightarrow> int \<Rightarrow> error option \<times> db" where
  "invoke_rule s eid outcome =
     (case update_equipment_status s eid outcome of
        Inl err \<Rightarrow> (Some err, s)
      | Inr s' \<Rightarrow> (None, s'))"

section \<open>Updating an intervention (services/intervention\_service.py)\<close>

text \<open>
  Two functions of the Python library are parameters of the model: what \<open>int\<close> returns on
  a string (\<open>None\<close> when it raises \<open>ValueError\<close>) and what
  \<open>datetime.strptime(s, '%Y-%m-%d').date()\<close> returns (\<open>None\<close> when it raises
  \<open>ValueError\<close>).
\<close>

record py_lib =
  int_of_str :: "string \<Rightarrow> int option"
  strptime_ymd :: "string \<Rightarrow> date option"

definition py_int :: "py_lib \<Rightarrow> pyval \<Rightarrow> error + int" where
  "py_int lib v =
     (case v of
        PyInt n \<Rightarrow> Inr n
      | PyNone \<Rightarrow> Inl TypeError
      | PyStr t \<Rightarrow>
          (case int_of_str lib t of
             Some n \<Rightarrow> Inr n
           | None \<Rightarrow> Inl (ValueError ''invalid literal for int() with base 10'')))"

text \<open>Truth value of a dict value, as \<open>if v:\<close> tests it.\<close>

definition truthy :: "pyval \<Rightarrow> bool" where
  "truthy v = (case v of PyNone \<Rightarrow> False | PyInt n \<Rightarrow> n \<noteq> 0 | PyStr t \<Rightarrow> t \<noteq> [])"

definition bind_error :: "error + 'a \<Rightarrow> ('a \<Rightarrow> error + 'b) \<Rightarrow> error + 'b" where
  "bind_error m f = (case m of Inl err \<Rightarrow> Inl err | Inr x \<Rightarrow> f x)"

text \<open>The assignments of \<open>update_intervention\<close>, one definition per source line.\<close>

definition assign_description :: "data \<Rightarrow> intervention \<Rightarrow> intervention" where
  "assign_description d i =
     (case d ''description'' of
        None \<Rightarrow> i
      | Some v \<Rightarrow> i\<lparr>intervention.description := v\<rparr>)"

definition assign_duration_minutes :: "py_lib \<Rightarrow> data \<Rightarrow> intervention \<Rightarrow> error + intervention" where
  "assign_duration_minutes lib d i =
     (case d ''duration_minutes'' of
        None \<Rightarrow> Inr i
      | Some v \<Rightarrow> bind_error (py_int lib v) (\<lambda>n. Inr (i\<lparr>duration_minutes := Some n\<rparr>)))"

text \<open>
  \<open>strptime\<close> raises \<open>TypeError\<close> on an argument that is not a string, which the
  \<open>except ValueError\<close> does not catch.
\<close>

definition assign_date :: "py_lib \<Rightarrow> data \<Rightarrow> intervention \<Rightarrow> error + intervention" where
  "assign_date lib d i =
     (case d ''date'' of
        None \<Rightarrow> Inr i
      | Some v \<Rightarrow>
          if truthy v then
            (case v of
               PyStr t \<Rightarrow>
                 (case strptime_ymd lib t of
                    Some day \<Rightarrow> Inr (i\<lparr>date := day\<rparr>)
                  | None \<Rightarrow> Inr i)
             | _ \<Rightarrow> Inl TypeError)
          else Inr i)"

definition assign_technician_id :: "py_lib \<Rightarrow> data \<Rightarrow> intervention \<Rightarrow> error + intervention" where
  "assign_technician_id lib d i =
     (case d ''technician_id'' of
        None \<Rightarrow> Inr i
      | Some v \<Rightarrow> bind_error (py_int lib v) (\<lambda>n. Inr (i\<lparr>intervention.user_id := Some n\<rparr>)))"

definition assign_equipment_id :: "py_lib \<Rightarrow> data \<Rightarrow> intervention \<Rightarrow> error + intervention" where
  "assign_equipment_id lib d i =
     (case d ''equipment_id'' of
        None \<Rightarrow> Inr i
      | Some v \<Rightarrow> bind_error (py_int lib v) (\<lambda>n. Inr (i\<lparr>intervention.equipment_id := n\<rparr>)))"

text \<open>
  The outcome: the pair is the row and \<open>new_outcome_id\<close>, which stays \<open>None\<close> when the
  key is absent.
\<close>

definition assign_outcome_id ::
  "py_lib \<Rightarrow> data \<Rightarrow> intervention \<Rightarrow> error + (intervention \<times> int option)" where
  "assign_outcome_id lib d i =
     (case d ''outcome_id'' of
        None \<Rightarrow> Inr (i, None)
      | Some v \<Rightarrow> bind_error (py_int lib v) (\<lambda>n. Inr (i\<lparr>outcome_id := Some n\<rparr>, Some n)))"

text \<open>\<open>new_outcome_id if new_outcome_id else intervention.outcome_id\<close>: \<open>None\<close> and 0 are false.\<close>

definition outcome_to_check :: "int option \<Rightarrow> intervention \<Rightarrow> int option" where
  "outcome_to_check new_outcome_id i =
     (case new_outcome_id of
        None \<Rightarrow> outcome_id i
      | Some n \<Rightarrow> if n \<noteq> 0 then Some n else outcome_id i)"

text \<open>\<open>if intervention.equipment_id and outcome_to_check:\<close> guards the call of the rule.\<close>

definition sync_status :: "db \<Rightarrow> intervention \<Rightarrow> int option \<Rightarrow> error + db" where
  "sync_status s i oc =
     (case oc of
        None \<Rightarrow> Inr s
      | Some outcome \<Rightarrow>
          if intervention.equipment_id i \<noteq> 0 \<and> outcome \<noteq> 0
          then update_equipment_status s (intervention.equipment_id i) outcome
          else Inr s)"

definition store_intervention :: "db \<Rightarrow> int \<Rightarrow> intervention \<Rightarrow> db" where
  "store_intervention s iid i =
     s\<lparr>intervention_table :=
         map (\<lambda>j. if intervention_id j = iid then i else j) (intervention_table s)\<rparr>"

text \<open>
  \<open>InterventionService.update_intervention\<close>. The result is what the call returns or
  raises, paired with the committed database: an exception leaves before
  \<open>db.session.commit()\<close>, so the database is then the one the call found.
\<close>

definition update_intervention ::
  "py_lib \<Rightarrow> db \<Rightarrow> int \<Rightarrow> data \<Rightarrow> (error + intervention option) \<times> db" where
  "update_intervention lib s iid d =
     (case get_intervention s iid of
        None \<Rightarrow> (Inr None, s)
      | Some i0 \<Rightarrow>
          (case bind_error (assign_duration_minutes lib d (assign_description d i0)) (\<lambda>i1.
                bind_error (assign_date lib d i1) (\<lambda>i2.
                bind_error (assign_technician_id lib d i2) (\<lambda>i3.
                bind_error (assign_equipment_id lib d i3) (\<lambda>i4.
                bind_error (assign_outcome_id lib d i4) (\<lambda>(i5, new_outcome_id).
                bind_error (sync_status s i5 (outcome_to_check new_outcome_id i5)) (\<lambda>s'.
                Inr (i5, s'))))))) of
             Inl err \<Rightarrow> (Inl err, s)
           | Inr (i5, s') \<Rightarrow> (Inr (Some i5), store_intervention s' iid i5)))"

section \<open>Deleting equipment (services/equipment\_service.py)\<close>

text \<open>\<open>db.session.delete(row)\<close> removes the row with the primary key of \<open>row\<close>.\<close>

definition session_delete_intervention :: "intervention \<Rightarrow> db \<Rightarrow> db" where
  "session_delete_intervention i s =
     s\<lparr>intervention_table :=
         filter (\<lambda>j. intervention_id j \<noteq> intervention_id i) (intervention_table s)\<rparr>"

definition session_delete_equipment :: "equipment \<Rightarrow> db \<Rightarrow> db" where
  "session_delete_equipment e s =
     s\<lparr>equipment_table :=
         filter (\<lambda>x. equipment.equipment_id x \<noteq> equipment.equipment_id e) (equipment_table s)\<rparr>"

text \<open>\<open>Intervention.query.filter_by(equipment_id=equipment_id).all()\<close>\<close>

definition interventions_of :: "db \<Rightarrow> int \<Rightarrow> intervention list" where
  "interventions_of s eid =
     filter (\<lambda>i. intervention.equipment_id i = eid) (intervention_table s)"

text \<open>The \<open>for\<close> loop of \<open>delete_equipment\<close>: the state before the equipment row goes.\<close>

definition delete_related_interventions :: "db \<Rightarrow> int \<Rightarrow> db" where
  "delete_related_interventions s eid = fold session_delete_intervention (interventions_of s eid) s"

definition delete_equipment :: "db \<Rightarrow> int \<Rightarrow> bool \<times> db" where
  "delete_equipment s eid =
     (case get_equipment s eid of
        None \<Rightarrow> (False, s)
      | Some e \<Rightarrow> (True, session_delete_equipment e (delete_related_interventions s eid)))"

text \<open>
  The foreign key of \<open>intervention.equipment_id\<close>: every intervention row names an
  existing equipment row.
\<close>

definition fk_equipment_ok :: "db \<Rightarrow> bool" where
  "fk_equipment_ok s =
     list_all (\<lambda>i. get_equipment s (intervention.equipment_id i) \<noteq> None) (intervention_table s)"

section \<open>Users (models.py, services/user\_service.py)\<close>

definition ADMIN :: string where "ADMIN = ''admin''"
definition TECHNICIAN :: string where "TECHNICIAN = ''technician''"

text \<open>\<open>User.to_dict\<close>; a Python dict keeps the order of insertion.\<close>

definition to_dict :: "user \<Rightarrow> (string \<times> pyval) list" where
  "to_dict u =
     [(''user_id'', PyInt (user.user_id u)),
      (''username'', PyStr (username u)),
      (''role'', role u),
      (''first_name'', first_name u),
      (''last_name'', last_name u),
      (''email'', email u),
      (''phone'', phone u)]"

text \<open>\<open>User.query.filter_by(role=Roles.ADMIN).count()\<close>\<close>

definition admin_count :: "db \<Rightarrow> nat" where
  "admin_count s = length (filter (\<lambda>u. role u = PyStr ADMIN) (user_table s))"

text \<open>The five conditional assignments of \<open>update_user\<close>, in source order.\<close>

definition apply_user_data :: "data \<Rightarrow> user \<Rightarrow> user" where
  "apply_user_data d u =
     (let u1 = (case d ''first_name'' of None \<Rightarrow> u | Some v \<Rightarrow> u\<lparr>first_name := v\<rparr>);
          u2 = (case d ''last_name'' of None \<Rightarrow> u1 | Some v \<Rightarrow> u1\<lparr>last_name := v\<rparr>);
          u3 = (case d ''email'' of None \<Rightarrow> u2 | Some v \<Rightarrow> u2\<lparr>email := v\<rparr>);
          u4 = (case d ''phone'' of None \<Rightarrow> u3 | Some v \<Rightarrow> u3\<lparr>phone := v\<rparr>)
      in (case d ''role'' of None \<Rightarrow> u4 | Some v \<Rightarrow> u4\<lparr>role := v\<rparr>))"

text \<open>Safety check 1 of \<open>update_user\<close>: the row is an admin and the dict asks for another role.\<close>

definition demotes_admin :: "user \<Rightarrow> data \<Rightarrow> bool" where
  "demotes_admin u d =
     (role u = PyStr ADMIN \<and>
      (case d ''role'' of None \<Rightarrow> False | Some new_role \<Rightarrow> new_role \<noteq> PyStr ADMIN))"

text \<open>Rule 2 of \<open>update_user\<close>: the row is a technician and the dict asks for admin.\<close>

definition promotes_technician :: "user \<Rightarrow> data \<Rightarrow> bool" where
  "promotes_technician u d =
     (role u = PyStr TECHNICIAN \<and>
      (case d ''role'' of None \<Rightarrow> False | Some new_role \<Rightarrow> new_role = PyStr ADMIN))"

definition store_user :: "db \<Rightarrow> int \<Rightarrow> user \<Rightarrow> db" where
  "store_user s uid u =
     s\<lparr>user_table := map (\<lambda>v. if user.user_id v = uid then u else v) (user_table s)\<rparr>"

text \<open>
  \<open>UserService.update_user\<close>: what the call returns or raises, and the committed
  database (both \<open>raise\<close> statements precede every assignment and the commit).
\<close>

definition update_user :: "db \<Rightarrow> int \<Rightarrow> data \<Rightarrow> (error + user option) \<times> db" where
  "update_user s uid d =
     (case get_user s uid of
        None \<Rightarrow> (Inr None, s)
      | Some u \<Rightarrow>
          if demotes_admin u d \<and> admin_count s \<le> 1
          then (Inl (ValueError ''Cannot change role: This is the only Administrator left.''), s)
          else if promotes_technician u d
          then (Inl (ValueError
                  ''Operation Forbidden: A Technician cannot be promoted to Administrator.''), s)
          else (Inr (Some (apply_user_data d u)), store_user s uid (apply_user_data d u)))"

definition session_delete_user :: "user \<Rightarrow> db \<Rightarrow> db" where
  "session_delete_user u s =
     s\<lparr>user_table := filter (\<lambda>v. user.user_id v \<noteq> user.user_id u) (user_table s)\<rparr>"

text \<open>\<open>UserService.delete_user\<close>\<close>

definition delete_user :: "db \<Rightarrow> int \<Rightarrow> (error + bool) \<times> db" where
  "delete_user s uid =
     (case get_user s uid of
        None \<Rightarrow> (Inr False, s)
      | Some u \<Rightarrow>
          if role u = PyStr ADMIN \<and> admin_count s \<le> 1
          then (Inl (ValueError
                  ''Cannot delete user: This is the only Administrator left in the system.''), s)
          else (Inr True, session_delete_user u s))"

section \<open>The request gate (app.py, utils/security.py, routes/user.py)\<close>

text \<open>
  A request as the gate reads it: \<open>request.endpoint\<close> and \<open>current_user\<close>, which is the
  logged-in row or, for \<open>None\<close>, the anonymous user, whose \<open>is_authenticated\<close> is false.
\<close>

record request =
  endpoint :: "string option"
  current_user :: "user option"

datatype json = JBool bool | JVal pyval | JObject "(string \<times> json) list"

text \<open>
  A response is \<open>app.login_manager.unauthorized()\<close> (the redirect to the login view, or
  401) or a JSON body with its status code.
\<close>

datatype response = Unauthorized | Response json nat

text \<open>
  \<open>app.view_functions\<close>: every endpoint that the blueprints and \<open>app.py\<close> register,
  with the \<open>is_public\<close> attribute of its view function (\<open>False\<close> when \<open>public_route\<close>
  did not decorate it, as \<open>getattr(view_func, 'is_public', False)\<close> reads it). The
  endpoint \<open>static\<close> of the framework is answered by the first test of the hook.
\<close>

definition view_functions :: "(string \<times> bool) list" where
  "view_functions =
     [(''web.dashboard'', False),
      (''web.view_equipment'', False),
      (''web.view_new_equipment'', False),
      (''web.view_equipment_details'', False),
      (''web.view_edit_equipment'', False),
      (''web.view_interventions'', False),
      (''web.view_interventions_details'', False),
      (''web.view_edit_intervention'', False),
      (''web.view_new_intervention'', False),
      (''web.view_location'', False),
      (''web.view_new_location'', False),
      (''web.view_edit_location'', False),
      (''web.view_users'', False),
      (''web.view_users_details'', False),
      (''web.view_new_user'', False),
      (''web.view_edit_user'', False),
      (''web.view_login_form'', True),
      (''web.get_options'', False),
      (''equipment.list_items'', False),
      (''equipment.create_item'', False),
      (''equipment.manage_single_resource'', False),
      (''equipment.export_items'', False),
      (''interventions.list_interventions'', False),
      (''interventions.create_intervention'', False),
      (''interventions.manage_single_intervention'', False),
      (''interventions.export_items'', False),
      (''locations.get_locations_stats'', False),
      (''locations.create_item'', False),
      (''locations.manage_single_location'', False),
      (''user.get_all_technicians'', False),
      (''user.create_user'', False),
      (''user.login_api'', True),
      (''user.logout_api'', True),
      (''user.get_current_user_status'', False),
      (''user.list_items'', False),
      (''user.manage_single_resource'', False),
      (''home.get_dashboard_summary'', False),
      (''home.get_my_activity'', False),
      (''home.get_priority_list'', False),
      (''service_worker'', False)]"

definition startswith :: "string \<Rightarrow> string \<Rightarrow> bool" where
  "startswith t p = (take (length p) t = p)"

text \<open>
  \<open>global_security_check\<close>, the \<open>before_request\<close> hook: \<open>None\<close> lets the request through
  to its view, \<open>Some r\<close> answers it with \<open>r\<close>.
\<close>

definition global_security_check :: "request \<Rightarrow> response option" where
  "global_security_check req =
     (if (case endpoint req of None \<Rightarrow> False | Some ep \<Rightarrow> startswith ep ''static'') then None
      else
        let view_func = (case endpoint req of None \<Rightarrow> None | Some ep \<Rightarrow> map_of view_functions ep)
        in if (case view_func of None \<Rightarrow> False | Some is_public \<Rightarrow> is_public) then None
           else if current_user req = None then Some Unauthorized
           else None)"

text \<open>The view \<open>get_current_user_status\<close> of \<open>GET /api/users/me\<close>.\<close>

definition get_current_user_status :: "request \<Rightarrow> response" where
  "get_current_user_status req =
     (case current_user req of
        Some u \<Rightarrow>
          Response (JObject [(''authenticated'', JBool True),
                             (''user'', JObject (map (\<lambda>(k, v). (k, JVal v)) (to_dict u)))]) 200
      | None \<Rightarrow> Response (JObject [(''authenticated'', JBool False)]) 200)"

text \<open>
  A request is answered by the hook when the hook returns a response, and by the view
  otherwise.
\<close>

definition full_dispatch_request :: "(request \<Rightarrow> response) \<Rightarrow> request \<Rightarrow> response" where
  "full_dispatch_request view req =
     (case global_security_check req of
        Some rv \<Rightarrow> rv
      | None \<Rightarrow> view req)"

section \<open>Concrete stores and requests\<close>

definition printer :: equipment where
  "printer = \<lparr>equipment.equipment_id = 1, name = PyStr ''printer'', equipment.description = PyNone,
              type_id = 1, status_id = 1, location_id = None\<rparr>"

definition laptop :: equipment where
  "laptop = \<lparr>equipment.equipment_id = 2, name = PyStr ''laptop'', equipment.description = PyNone,
             type_id = 2, status_id = 1, location_id = None\<rparr>"

definition visit :: intervention where
  "visit = \<lparr>intervention_id = 10, date = (2024, 5, 17), intervention.description = PyStr ''toner'',
            duration_minutes = Some 30, intervention.equipment_id = 1,
            intervention.user_id = None, outcome_id = Some 3\<rparr>"

definition visit2 :: intervention where
  "visit2 = \<lparr>intervention_id = 11, date = (2024, 5, 18), intervention.description = PyStr ''disk'',
             duration_minutes = None, intervention.equipment_id = 2,
             intervention.user_id = None, outcome_id = Some 1\<rparr>"

definition alice :: user where
  "alice = \<lparr>user.user_id = 1, username = ''alice'', password_hash = ''h1'', role = PyStr ''admin'',
            first_name = PyStr ''Alice'', last_name = PyStr ''A'', email = PyNone, phone = PyNone\<rparr>"

definition bob :: user where
  "bob = \<lparr>user.user_id = 2, username = ''bob'', password_hash = ''h2'', role = PyStr ''technician'',
          first_name = PyStr ''Bob'', last_name = PyStr ''B'', email = PyNone, phone = PyNone\<rparr>"

definition shop :: db where
  "shop = \<lparr>equipment_table = [printer, laptop], intervention_table = [visit, visit2],
           user_table = [alice, bob]\<rparr>"

definition lib0 :: py_lib where
  "lib0 = \<lparr>int_of_str = (\<lambda>t. None), strptime_ymd = (\<lambda>t. None)\<rparr>"

definition guest_me :: request where
  "guest_me = \<lparr>endpoint = Some ''user.get_current_user_status'', current_user = None\<rparr>"

section \<open>Lemmas about the rule\<close>

lemma find_map_status:
  "find (\<lambda>e. equipment.equipment_id e = eid)
     (map (\<lambda>e. if equipment.equipment_id e = eid then e\<lparr>status_id := v\<rparr> else e) xs) =
   map_option (\<lambda>e. e\<lparr>status_id := v\<rparr>) (find (\<lambda>e. equipment.equipment_id e = eid) xs)"
  by (induction xs) auto

lemma get_equipment_set_status:
  "get_equipment (set_status s eid v) eid =
   map_option (\<lambda>e. e\<lparr>status_id := v\<rparr>) (get_equipment s eid)"
  by (simp add: get_equipment_def set_status_def find_map_status)

lemma rule2_condition_cases:
  "rule2_condition outcome =
     (if outcome = (3 OR outcome) then Inl (AttributeError ''Service'') else Inr False)"
  by (simp add: rule2_condition_def Intervention_Service_OUTCOME_MONITORING_def
      OUTCOME_PENDING_def Let_def)

lemma get_equipment_shop_1: "get_equipment shop 1 = Some printer"
  by (simp add: get_equipment_def shop_def printer_def)

lemma update_equipment_status_resolved:
  "get_equipment s eid = Some e \<Longrightarrow>
   update_equipment_status s eid OUTCOME_RESOLVED = Inr (set_status s eid STATUS_WORKING)"
  by (simp add: update_equipment_status_def)

lemma update_equipment_status_pending:
  "get_equipment s eid = Some e \<Longrightarrow>
   update_equipment_status s eid OUTCOME_PENDING = Inl (AttributeError ''Service'')"
  by (simp add: update_equipment_status_def rule2_condition_cases OUTCOME_PENDING_def
      OUTCOME_RESOLVED_def)

lemma update_equipment_status_monitoring:
  "update_equipment_status s eid OUTCOME_MONITORING = Inr s"
  by (simp add: update_equipment_status_def rule2_condition_cases OUTCOME_MONITORING_def
      OUTCOME_RESOLVED_def split: option.split)

lemma set_status_twice: "set_status (set_status s eid v) eid v = set_status s eid v"
  by (simp add: set_status_def comp_def)

text \<open>
  Where the rule returns, it is idempotent: the state after two invocations is the state
  after one, and an invocation that returned is followed by one that returns.
\<close>

lemma invoke_rule_state_idempotent:
  "snd (invoke_rule (snd (invoke_rule s eid outcome)) eid outcome) =
   snd (invoke_rule s eid outcome)"
  by (auto simp: invoke_rule_def update_equipment_status_def get_equipment_set_status
      set_status_twice split: option.splits sum.splits bool.splits if_splits)

lemma invoke_rule_success_repeats:
  "fst (invoke_rule s eid outcome) = None \<Longrightarrow>
   invoke_rule (snd (invoke_rule s eid outcome)) eid outcome =
     (None, snd (invoke_rule s eid outcome))"
  by (auto simp: invoke_rule_def update_equipment_status_def get_equipment_set_status
      set_status_twice split: option.splits sum.splits bool.splits if_splits)

section \<open>The claims about the rule\<close>

text \<open>
  C1. The claim: for an existing equipment row, the rule with outcome PENDING (3) or
  MONITORING (2) returns without an error and leaves the row's status at UNDER\_REPAIR (2).
  The code at the store \<open>shop\<close>, whose equipment 1 is WORKING: with PENDING the rule
  raises \<open>AttributeError\<close>, and with MONITORING it returns and changes nothing, so the
  status is still WORKING.
\<close>

theorem pending_monitoring_not_under_repair:
  "update_equipment_status shop 1 OUTCOME_PENDING = Inl (AttributeError ''Service'') \<and>
   update_equipment_status shop 1 OUTCOME_MONITORING = Inr shop \<and>
   map_option status_id (get_equipment shop 1) = Some STATUS_WORKING \<and>
   STATUS_WORKING \<noteq> STATUS_UNDER_REPAIR"
  by (simp add: update_equipment_status_pending [OF get_equipment_shop_1]
      update_equipment_status_monitoring get_equipment_shop_1 printer_def
      STATUS_WORKING_def STATUS_UNDER_REPAIR_def)

text \<open>
  C5. For an existing equipment row, the rule with outcome RESOLVED returns without an
  error, and afterwards the row found under the same id is the old row with its status
  set to WORKING.
\<close>

theorem resolved_sets_working:
  "get_equipment s eid = Some e \<Longrightarrow>
   \<exists>s'. update_equipment_status s eid OUTCOME_RESOLVED = Inr s' \<and>
        get_equipment s' eid = Some (e\<lparr>status_id := STATUS_WORKING\<rparr>)"
proof -
  assume h: "get_equipment s eid = Some e"
  have "update_equipment_status s eid OUTCOME_RESOLVED = Inr (set_status s eid STATUS_WORKING)"
    using h by (rule update_equipment_status_resolved)
  moreover have "get_equipment (set_status s eid STATUS_WORKING) eid =
      Some (e\<lparr>status_id := STATUS_WORKING\<rparr>)"
    using h by (simp add: get_equipment_set_status)
  ultimately show ?thesis by blast
qed

theorem resolved_sets_working_witness:
  "get_equipment shop 1 = Some printer \<and>
   (\<exists>s'. update_equipment_status shop 1 OUTCOME_RESOLVED = Inr s' \<and>
         get_equipment s' 1 = Some (printer\<lparr>status_id := STATUS_WORKING\<rparr>))"
  using resolved_sets_working [OF get_equipment_shop_1] get_equipment_shop_1 by blast

text \<open>
  C7. The claim: for every equipment id and outcome id, two invocations of the rule in
  succession leave the same status as one, and the second does not fail. The code at
  \<open>shop\<close>, equipment 1, outcome PENDING: the first invocation raises and leaves the
  store as it was, and the second invocation raises again.
\<close>

theorem second_invocation_fails_on_pending:
  "invoke_rule shop 1 OUTCOME_PENDING = (Some (AttributeError ''Service''), shop) \<and>
   fst (invoke_rule (snd (invoke_rule shop 1 OUTCOME_PENDING)) 1 OUTCOME_PENDING) =
     Some (AttributeError ''Service'')"
  by (simp add: invoke_rule_def update_equipment_status_pending [OF get_equipment_shop_1])

text \<open>
  C8. For an equipment id that resolves to no row, the rule returns without an error for
  every outcome id and leaves the whole store, hence every status, as it was.
\<close>

theorem update_equipment_status_missing:
  "get_equipment s eid = None \<Longrightarrow> update_equipment_status s eid outcome = Inr s"
  by (simp add: update_equipment_status_def)

theorem update_equipment_status_missing_witness:
  "get_equipment shop 7 = None \<and> update_equipment_status shop 7 OUTCOME_PENDING = Inr shop"
proof -
  have h: "get_equipment shop 7 = None"
    by (simp add: get_equipment_def shop_def printer_def laptop_def)
  from update_equipment_status_missing [OF h, of OUTCOME_PENDING] h show ?thesis by simp
qed

section \<open>Updating an intervention: the carried-over outcome\<close>

lemma get_equipment_shop_2: "get_equipment shop 2 = Some laptop"
  by (simp add: get_equipment_def shop_def printer_def laptop_def)

lemma get_intervention_shop_10: "get_intervention shop 10 = Some visit"
  by (simp add: get_intervention_def shop_def visit_def)

text \<open>
  An update whose dict holds only \<open>equipment_id\<close> applies the rule to the new equipment
  with the outcome the intervention already stores, and commits when the rule returns.
\<close>

lemma update_intervention_equipment_only:
  assumes "get_intervention s iid = Some i"
    and "d = [''equipment_id'' \<mapsto> PyInt e']"
  shows "update_intervention lib s iid d =
     (case sync_status s (i\<lparr>intervention.equipment_id := e'\<rparr>) (outcome_id i) of
        Inl err \<Rightarrow> (Inl err, s)
      | Inr s' \<Rightarrow> (Inr (Some (i\<lparr>intervention.equipment_id := e'\<rparr>)),
                  store_intervention s' iid (i\<lparr>intervention.equipment_id := e'\<rparr>)))"
  using assms
  by (simp add: update_intervention_def bind_error_def assign_description_def
      assign_duration_minutes_def assign_date_def assign_technician_id_def
      assign_equipment_id_def assign_outcome_id_def outcome_to_check_def py_int_def
      split: sum.split)

text \<open>
  C6. The claim: an update that supplies a new \<open>equipment_id\<close> and no \<open>outcome_id\<close>
  applies the rule to the new equipment with the stored outcome, and with stored outcome
  PENDING that equipment becomes UNDER\_REPAIR. The code at \<open>shop\<close>: intervention 10
  stores PENDING, the update moves it to equipment 2, the rule is called with the stored
  outcome and raises \<open>AttributeError\<close>; nothing is committed and equipment 2 is still
  WORKING.
\<close>

theorem carried_pending_raises:
  "update_intervention lib0 shop 10 [''equipment_id'' \<mapsto> PyInt 2] =
     (Inl (AttributeError ''Service''), shop) \<and>
   map_option outcome_id (get_intervention shop 10) = Some (Some OUTCOME_PENDING) \<and>
   map_option status_id (get_equipment shop 2) = Some STATUS_WORKING"
  by (simp add: update_intervention_equipment_only [OF get_intervention_shop_10 refl]
      sync_status_def visit_def update_equipment_status_pending [OF get_equipment_shop_2, unfolded OUTCOME_PENDING_def]
      get_intervention_shop_10 get_equipment_shop_2 laptop_def OUTCOME_PENDING_def STATUS_WORKING_def)

section \<open>Deleting equipment\<close>

lemma session_delete_intervention_tables:
  "intervention_table (session_delete_intervention i s) =
     filter (\<lambda>j. intervention_id j \<noteq> intervention_id i) (intervention_table s)"
  "equipment_table (session_delete_intervention i s) = equipment_table s"
  "user_table (session_delete_intervention i s) = user_table s"
  by (simp_all add: session_delete_intervention_def)

lemma fold_session_delete_intervention:
  "intervention_table (fold session_delete_intervention xs s) =
     filter (\<lambda>j. intervention_id j \<notin> intervention_id ` set xs) (intervention_table s) \<and>
   equipment_table (fold session_delete_intervention xs s) = equipment_table s \<and>
   user_table (fold session_delete_intervention xs s) = user_table s"
proof (induction xs arbitrary: s)
  case Nil
  show ?case by simp
next
  case (Cons x xs)
  show ?case
    by (simp add: Cons.IH session_delete_intervention_tables conj_commute)
qed

lemma find_Some_holds: "find P xs = Some x \<Longrightarrow> P x \<and> x \<in> set xs"
  by (induction xs) (auto split: if_splits)

lemma find_filter_other:
  "x \<noteq> eid \<Longrightarrow>
   find (\<lambda>e. equipment.equipment_id e = x) (filter (\<lambda>e. equipment.equipment_id e \<noteq> eid) xs) =
   find (\<lambda>e. equipment.equipment_id e = x) xs"
  by (induction xs) auto

lemma delete_related_tables:
  "intervention_table (delete_related_interventions s eid) =
     filter (\<lambda>j. intervention_id j \<notin> intervention_id ` set (interventions_of s eid))
       (intervention_table s)"
  "equipment_table (delete_related_interventions s eid) = equipment_table s"
  "user_table (delete_related_interventions s eid) = user_table s"
  by (simp_all add: delete_related_interventions_def fold_session_delete_intervention)

lemma no_intervention_left:
  "interventions_of (delete_related_interventions s eid) eid = []"
  by (auto simp: interventions_of_def delete_related_tables filter_empty_conv)

lemma related_removed_exactly:
  assumes "distinct (map intervention_id (intervention_table s))"
  shows "intervention_table (delete_related_interventions s eid) =
     filter (\<lambda>i. intervention.equipment_id i \<noteq> eid) (intervention_table s)"
proof -
  have inj: "inj_on intervention_id (set (intervention_table s))"
    using assms by (simp add: distinct_map)
  show ?thesis
    unfolding delete_related_tables interventions_of_def
  proof (rule filter_cong [OF refl])
    fix j assume j: "j \<in> set (intervention_table s)"
    show "(intervention_id j \<notin> intervention_id `
             set (filter (\<lambda>i. intervention.equipment_id i = eid) (intervention_table s))) =
          (intervention.equipment_id j \<noteq> eid)"
      using j inj by (auto dest: inj_onD)
  qed
qed

lemma delete_equipment_found:
  assumes "get_equipment s eid = Some e"
  shows "delete_equipment s eid =
     (True, (delete_related_interventions s eid)
              \<lparr>equipment_table :=
                 filter (\<lambda>x. equipment.equipment_id x \<noteq> eid) (equipment_table s)\<rparr>)"
proof -
  have "equipment.equipment_id e = eid"
    using find_Some_holds [OF assms [unfolded get_equipment_def]] by simp
  then show ?thesis
    using assms by (simp add: delete_equipment_def session_delete_equipment_def delete_related_tables)
qed

lemma fk_preserved:
  assumes "get_equipment s eid = Some e" and "fk_equipment_ok s"
  shows "fk_equipment_ok (snd (delete_equipment s eid))"
proof -
  have "get_equipment s (intervention.equipment_id j) \<noteq> None \<and> intervention.equipment_id j \<noteq> eid"
    if "j \<in> set (intervention_table (delete_related_interventions s eid))" for j
    using that assms(2)
    by (auto simp: delete_related_tables interventions_of_def fk_equipment_ok_def list_all_iff)
  then show ?thesis
    by (simp add: delete_equipment_found [OF assms(1)] fk_equipment_ok_def list_all_iff
        get_equipment_def find_filter_other)
qed

text \<open>
  C9. For an id that resolves to an equipment row, \<open>delete_equipment\<close> returns
  \<open>True\<close>; after its loop, and before the equipment row is deleted, no intervention
  names the id while the equipment row is still there; in the final store no intervention
  names the id and the id resolves to nothing, so a store whose foreign key held still
  satisfies it; with unique intervention ids the interventions removed are exactly those
  that named the id. For an id that resolves to nothing it returns \<open>False\<close> and the
  store is unchanged.
\<close>

theorem delete_equipment_cascades:
  "(get_equipment s eid = Some e \<longrightarrow>
      fst (delete_equipment s eid) = True \<and>
      interventions_of (delete_related_interventions s eid) eid = [] \<and>
      get_equipment (delete_related_interventions s eid) eid = Some e \<and>
      interventions_of (snd (delete_equipment s eid)) eid = [] \<and>
      get_equipment (snd (delete_equipment s eid)) eid = None \<and>
      (fk_equipment_ok s \<longrightarrow> fk_equipment_ok (snd (delete_equipment s eid))) \<and>
      (distinct (map intervention_id (intervention_table s)) \<longrightarrow>
         intervention_table (snd (delete_equipment s eid)) =
           filter (\<lambda>i. intervention.equipment_id i \<noteq> eid) (intervention_table s))) \<and>
   (get_equipment s eid = None \<longrightarrow> delete_equipment s eid = (False, s))"
proof (intro conjI impI)
  assume h: "get_equipment s eid = Some e"
  show "fst (delete_equipment s eid) = True"
    by (simp add: delete_equipment_found [OF h])
  show "interventions_of (delete_related_interventions s eid) eid = []"
    by (rule no_intervention_left)
  show "get_equipment (delete_related_interventions s eid) eid = Some e"
    using h by (simp add: get_equipment_def delete_related_tables)
  show "interventions_of (snd (delete_equipment s eid)) eid = []"
    using no_intervention_left [of s eid]
    by (simp add: delete_equipment_found [OF h] interventions_of_def)
  show "get_equipment (snd (delete_equipment s eid)) eid = None"
    by (simp add: delete_equipment_found [OF h] get_equipment_def find_None_iff)
  show "fk_equipment_ok (snd (delete_equipment s eid))" if "fk_equipment_ok s"
    using h that by (rule fk_preserved)
  show "intervention_table (snd (delete_equipment s eid)) =
      filter (\<lambda>i. intervention.equipment_id i \<noteq> eid) (intervention_table s)"
    if "distinct (map intervention_id (intervention_table s))"
    using that by (simp add: delete_equipment_found [OF h] related_removed_exactly)
next
  assume "get_equipment s eid = None"
  then show "delete_equipment s eid = (False, s)"
    by (simp add: delete_equipment_def)
qed

theorem delete_equipment_cascades_witness:
  "get_equipment shop 1 = Some printer \<and>
   interventions_of shop 1 = [visit] \<and>
   fst (delete_equipment shop 1) = True \<and>
   interventions_of (snd (delete_equipment shop 1)) 1 = [] \<and>
   get_equipment (snd (delete_equipment shop 1)) 1 = None \<and>
   fk_equipment_ok shop \<and>
   fk_equipment_ok (snd (delete_equipment shop 1)) \<and>
   distinct (map intervention_id (intervention_table shop)) \<and>
   intervention_table (snd (delete_equipment shop 1)) =
     filter (\<lambda>i. intervention.equipment_id i \<noteq> 1) (intervention_table shop) \<and>
   get_equipment shop 7 = None \<and>
   delete_equipment shop 7 = (False, shop)"
proof -
  have h1: "get_equipment shop 1 = Some printer"
    by (simp add: get_equipment_def shop_def printer_def)
  have h2: "fk_equipment_ok shop"
    by (simp add: fk_equipment_ok_def get_equipment_def shop_def printer_def laptop_def
        visit_def visit2_def)
  have h3: "distinct (map intervention_id (intervention_table shop))"
    by (simp add: shop_def visit_def visit2_def)
  have h4: "get_equipment shop 7 = None"
    by (simp add: get_equipment_def shop_def printer_def laptop_def)
  have h5: "interventions_of shop 1 = [visit]"
    by (simp add: interventions_of_def shop_def visit_def visit2_def)
  show ?thesis
    using delete_equipment_cascades [of shop 1 printer] delete_equipment_cascades [of shop 7]
      h1 h2 h3 h4 h5
    by simp
qed

section \<open>The user guards\<close>

lemma map_other_ids:
  "uid \<notin> user.user_id ` set us \<Longrightarrow>
   map (\<lambda>v. if user.user_id v = uid then u' else v) us = us"
  by (induction us) auto

lemma filter_other_ids:
  "uid \<notin> user.user_id ` set us \<Longrightarrow> filter (\<lambda>v. user.user_id v \<noteq> uid) us = us"
  by (induction us) auto

lemma count_after_store:
  assumes "distinct (map user.user_id us)"
    and "find (\<lambda>v. user.user_id v = uid) us = Some u"
  shows "length (filter P (map (\<lambda>v. if user.user_id v = uid then u' else v) us)) + (if P u then 1 else 0) =
         length (filter P us) + (if P u' then 1 else 0)"
  using assms
proof (induction us)
  case Nil
  then show ?case by simp
next
  case (Cons a us)
  show ?case
  proof (cases "user.user_id a = uid")
    case True
    then have "uid \<notin> user.user_id ` set us" and "u = a"
      using Cons.prems by auto
    then show ?thesis
      using True by (simp add: map_other_ids)
  next
    case False
    then show ?thesis
      using Cons by simp
  qed
qed

lemma count_after_delete:
  assumes "distinct (map user.user_id us)"
    and "find (\<lambda>v. user.user_id v = uid) us = Some u"
  shows "length (filter P (filter (\<lambda>v. user.user_id v \<noteq> uid) us)) + (if P u then 1 else 0) =
         length (filter P us)"
  using assms
proof (induction us)
  case Nil
  then show ?case by simp
next
  case (Cons a us)
  show ?case
  proof (cases "user.user_id a = uid")
    case True
    then have "uid \<notin> user.user_id ` set us" and "u = a"
      using Cons.prems by auto
    then show ?thesis
      using True by (simp add: filter_other_ids)
  next
    case False
    then show ?thesis
      using Cons by simp
  qed
qed

lemma update_user_keeps_an_admin:
  assumes d: "distinct (map user.user_id (user_table s))" and c: "1 \<le> admin_count s"
  shows "1 \<le> admin_count (snd (update_user s uid d'))"
proof (cases "get_user s uid")
  case None
  then show ?thesis using c by (simp add: update_user_def)
next
  case (Some u)
  note cnt = count_after_store [OF d Some [unfolded get_user_def],
      of "\<lambda>v. role v = PyStr ADMIN" "apply_user_data d' u"]
  show ?thesis
  proof (cases "demotes_admin u d' \<and> admin_count s \<le> 1")
    case True
    then show ?thesis using Some c by (simp add: update_user_def)
  next
    case guard: False
    show ?thesis
    proof (cases "promotes_technician u d'")
      case True
      then show ?thesis using Some guard c by (simp add: update_user_def)
    next
      case False
      have "role u = PyStr ADMIN \<Longrightarrow> role (apply_user_data d' u) \<noteq> PyStr ADMIN \<Longrightarrow> demotes_admin u d'"
        by (auto simp: demotes_admin_def apply_user_data_def Let_def split: option.splits)
      then show ?thesis
        using Some guard False c cnt
        by (auto simp: update_user_def admin_count_def store_user_def split: if_splits)
    qed
  qed
qed

lemma delete_user_keeps_an_admin:
  assumes d: "distinct (map user.user_id (user_table s))" and c: "1 \<le> admin_count s"
  shows "1 \<le> admin_count (snd (delete_user s uid))"
proof (cases "get_user s uid")
  case None
  then show ?thesis using c by (simp add: delete_user_def)
next
  case (Some u)
  have id: "user.user_id u = uid"
    using find_Some_holds [OF Some [unfolded get_user_def]] by simp
  note cnt = count_after_delete [OF d Some [unfolded get_user_def],
      of "\<lambda>v. role v = PyStr ADMIN"]
  show ?thesis
    using Some c cnt id
    by (auto simp: delete_user_def admin_count_def session_delete_user_def split: if_splits)
qed

lemma get_user_shop_1: "get_user shop 1 = Some alice"
  by (simp add: get_user_def shop_def alice_def)

lemma get_user_shop_2: "get_user shop 2 = Some bob"
  by (simp add: get_user_def shop_def alice_def bob_def)

lemma delete_technician_succeeds:
  "delete_user shop 2 = (Inr True, shop\<lparr>user_table := [alice]\<rparr>)"
  by (simp add: delete_user_def get_user_shop_2 session_delete_user_def)
    (simp add: shop_def alice_def bob_def ADMIN_def)

text \<open>
  C2. When the row under \<open>uid\<close> is an admin and at most one admin is counted before the
  call, \<open>update_user\<close> with a requested role other than admin and \<open>delete_user\<close> both
  raise a \<open>ValueError\<close> whose message names the only administrator left, and the
  database is the one they found. Consequently, with unique user ids, a database that has
  an admin still has one after any \<open>update_user\<close> or \<open>delete_user\<close> call.
\<close>

theorem last_admin_guard:
  "(get_user s uid = Some u \<and> role u = PyStr ADMIN \<and> admin_count s \<le> 1 \<longrightarrow>
      (d ''role'' = Some r \<and> r \<noteq> PyStr ADMIN \<longrightarrow>
         update_user s uid d =
           (Inl (ValueError ''Cannot change role: This is the only Administrator left.''), s)) \<and>
      delete_user s uid =
        (Inl (ValueError
           ''Cannot delete user: This is the only Administrator left in the system.''), s)) \<and>
   (distinct (map user.user_id (user_table s)) \<and> 1 \<le> admin_count s \<longrightarrow>
      1 \<le> admin_count (snd (update_user s uid' d')) \<and>
      1 \<le> admin_count (snd (delete_user s uid')))"
proof (intro conjI impI)
  assume h: "get_user s uid = Some u \<and> role u = PyStr ADMIN \<and> admin_count s \<le> 1"
  show "update_user s uid d =
      (Inl (ValueError ''Cannot change role: This is the only Administrator left.''), s)"
    if "d ''role'' = Some r \<and> r \<noteq> PyStr ADMIN"
    using h that by (simp add: update_user_def demotes_admin_def)
  show "delete_user s uid =
      (Inl (ValueError ''Cannot delete user: This is the only Administrator left in the system.''),
       s)"
    using h by (simp add: delete_user_def)
next
  assume h: "distinct (map user.user_id (user_table s)) \<and> 1 \<le> admin_count s"
  show "1 \<le> admin_count (snd (update_user s uid' d'))"
    using h by (blast intro: update_user_keeps_an_admin)
  show "1 \<le> admin_count (snd (delete_user s uid'))"
    using h by (blast intro: delete_user_keeps_an_admin)
qed

theorem last_admin_guard_witness:
  "get_user shop 1 = Some alice \<and> role alice = PyStr ADMIN \<and> admin_count shop \<le> 1 \<and>
   update_user shop 1 [''role'' \<mapsto> PyStr TECHNICIAN] =
     (Inl (ValueError ''Cannot change role: This is the only Administrator left.''), shop) \<and>
   delete_user shop 1 =
     (Inl (ValueError ''Cannot delete user: This is the only Administrator left in the system.''),
      shop) \<and>
   distinct (map user.user_id (user_table shop)) \<and> 1 \<le> admin_count shop \<and>
   1 \<le> admin_count (snd (update_user shop 2 [''role'' \<mapsto> PyStr ''guest''])) \<and>
   1 \<le> admin_count (snd (delete_user shop 2))"
proof -
  have h1: "role alice = PyStr ADMIN"
    by (simp add: alice_def ADMIN_def)
  have h2: "admin_count shop = 1"
    by (simp add: admin_count_def shop_def alice_def bob_def ADMIN_def)
  have h3: "distinct (map user.user_id (user_table shop))"
    by (simp add: shop_def alice_def bob_def)
  have h4: "[''role'' \<mapsto> PyStr TECHNICIAN] ''role'' = Some (PyStr TECHNICIAN) \<and>
      PyStr TECHNICIAN \<noteq> PyStr ADMIN"
    by (simp add: ADMIN_def TECHNICIAN_def)
  show ?thesis
    using last_admin_guard [of shop 1 alice "[''role'' \<mapsto> PyStr TECHNICIAN]" "PyStr TECHNICIAN"
        2 "[''role'' \<mapsto> PyStr ''guest'']"]
      get_user_shop_1 h1 h2 h3 h4
    by simp
qed

text \<open>
  C3. When the row under \<open>uid\<close> is a technician and the dict asks for the role admin,
  \<open>update_user\<close> raises a \<open>ValueError\<close> (promotion forbidden) whatever the number of
  admins, and the row is still found unchanged, a technician.
\<close>

theorem technician_promotion_forbidden:
  "get_user s uid = Some u \<Longrightarrow> role u = PyStr TECHNICIAN \<Longrightarrow> d ''role'' = Some (PyStr ADMIN) \<Longrightarrow>
   update_user s uid d =
     (Inl (ValueError ''Operation Forbidden: A Technician cannot be promoted to Administrator.''),
      s) \<and>
   get_user (snd (update_user s uid d)) uid = Some u"
  by (simp add: update_user_def demotes_admin_def promotes_technician_def ADMIN_def TECHNICIAN_def)

theorem technician_promotion_forbidden_witness:
  "get_user shop 2 = Some bob \<and> role bob = PyStr TECHNICIAN \<and>
   update_user shop 2 [''role'' \<mapsto> PyStr ADMIN] =
     (Inl (ValueError ''Operation Forbidden: A Technician cannot be promoted to Administrator.''),
      shop) \<and>
   get_user (snd (update_user shop 2 [''role'' \<mapsto> PyStr ADMIN])) 2 = Some bob"
proof -
  have h: "role bob = PyStr TECHNICIAN"
    by (simp add: bob_def TECHNICIAN_def)
  have k: "[''role'' \<mapsto> PyStr ADMIN] ''role'' = Some (PyStr ADMIN)"
    by simp
  from technician_promotion_forbidden [of shop 2 bob "[''role'' \<mapsto> PyStr ADMIN]",
      OF get_user_shop_2 h k] get_user_shop_2 h
  show ?thesis by simp
qed

text \<open>
  C10. The dict of \<open>User.to_dict\<close> has no key \<open>password_hash\<close>, and it does not depend
  on the stored hash: replacing the hash of a row by any other leaves the dict the same.
\<close>

theorem to_dict_hides_password_hash:
  "map_of (to_dict u) ''password_hash'' = None \<and>
   ''password_hash'' \<notin> fst ` set (to_dict u) \<and>
   to_dict (u\<lparr>password_hash := h\<rparr>) = to_dict u"
  by (simp add: to_dict_def)

section \<open>The request gate\<close>

text \<open>
  C4. The claim: \<open>GET /api/users/me\<close> is public, so a request without a session passes
  the gate and is answered by the view with \<open>authenticated: False\<close> and status 200. The
  code: the view is registered without \<open>public_route\<close>, so for such a request the hook
  answers with \<open>login_manager.unauthorized()\<close> and the view, which would have answered
  as the claim says, is never called.
\<close>

theorem me_is_not_public:
  "global_security_check guest_me = Some Unauthorized \<and>
   full_dispatch_request get_current_user_status guest_me = Unauthorized \<and>
   get_current_user_status guest_me = Response (JObject [(''authenticated'', JBool False)]) 200"
  by (simp add: full_dispatch_request_def global_security_check_def guest_me_def
      view_functions_def startswith_def get_current_user_status_def)

end
